theory Spec2Isabelle
  imports Complex_Main "HOL-Library.Sublist"
begin

section \<open>Study Buddy: the chat backend (convex/chat.ts) over the schema\<close>

text \<open>
  The backend is a set of handlers over two tables of a document store. The store, the
  authentication lookup, the scheduler, the clock and the completion provider are
  collaborators of the handlers; each is made explicit here:
  \<^item> a table is the list of its documents in creation order, each paired with its
    system identifier; inserting appends, an index range scan is a filter of that list
    (ascending) or its reverse (descending), since an index on one field orders the
    documents of equal field value by creation;
  \<^item> an identifier is an opaque, non-empty string of the platform, here a number, so
    that the test \<open>!userId\<close> is the test for no user and \<open>!conversation\<close> the test for
    no document;
  \<^item> \<open>getAuthUserId\<close> is the optional user identifier a handler is called with;
  \<^item> every \<open>Date.now()\<close> of a handler is an argument, one per call site;
  \<^item> a \<open>throw\<close> is the \<open>Inl\<close> of the result, and a handler returns the world as it
    is at the throw, so that what was written before a failure stays visible;
  \<^item> the scheduler is the queue of jobs handed to it, the provider a function from the
    request to its outcome, and the requests sent to it are logged in order.
\<close>

subsection \<open>Schema\<close>

type_synonym doc_id = nat

record conversation =
  userId :: doc_id
  title :: string
  lastMessageAt :: int

text \<open>
  A role is a string literal in the source. The provider's vocabulary has three of them;
  the schema admits two for a stored message, which is the predicate \<open>stored_role\<close>.
\<close>

datatype role = System | User | Assistant

definition stored_role :: "role \<Rightarrow> bool" where
  "stored_role r = (r = User \<or> r = Assistant)"

record message =
  conversationId :: doc_id
  msg_userId :: doc_id
  content :: string
  role :: role
  timestamp :: int

type_synonym 'a table = "(doc_id \<times> 'a) list"

subsection \<open>Collaborators\<close>

text \<open>A thrown value: an \<open>Error\<close> with its message, or anything else.\<close>

datatype exn = Error string | Other

abbreviation Unauthenticated :: exn where
  "Unauthenticated \<equiv> Error ''Not authenticated''"

abbreviation NotFound :: exn where
  "NotFound \<equiv> Error ''Conversation not found''"

datatype internal_function = Chat_generateAIResponse

datatype scheduled_job = RunAfter nat internal_function doc_id

record message_param =
  param_role :: role
  param_content :: string

record completion_request =
  model :: string
  request_messages :: "message_param list"
  max_tokens :: nat
  temperature :: rat
  presence_penalty :: rat
  frequency_penalty :: rat

datatype completion_message = CompletionMessage (message_content: "string option")

datatype choice = Choice (choice_message: "completion_message option")

datatype chat_completion = ChatCompletion (choices: "choice list")

datatype provider_outcome = Resolves chat_completion | Rejects exn

type_synonym provider = "completion_request \<Rightarrow> provider_outcome"

record world =
  conversations :: "conversation table"
  messages :: "message table"
  scheduled :: "scheduled_job list"
  completions :: "completion_request list"

definition empty_world :: world where
  "empty_world = \<lparr>conversations = [], messages = [], scheduled = [], completions = []\<rparr>"

subsection \<open>Store operations: point get, insert, patch, index range scan\<close>

definition db_get :: "'a table \<Rightarrow> doc_id \<Rightarrow> 'a option" where
  "db_get tbl i = map_of tbl i"

definition new_id :: "'a table \<Rightarrow> doc_id" where
  "new_id tbl = Suc (fold max (map fst tbl) 0)"

definition db_insert :: "'a table \<Rightarrow> 'a \<Rightarrow> doc_id \<times> 'a table" where
  "db_insert tbl d = (let i = new_id tbl in (i, tbl @ [(i, d)]))"

definition db_patch :: "'a table \<Rightarrow> doc_id \<Rightarrow> ('a \<Rightarrow> 'a) \<Rightarrow> 'a table" where
  "db_patch tbl i f = map (\<lambda>(j, d). if j = i then (j, f d) else (j, d)) tbl"

datatype scan_order = Asc | Desc

definition collect :: "scan_order \<Rightarrow> ('a \<Rightarrow> bool) \<Rightarrow> 'a table \<Rightarrow> (doc_id \<times> 'a) list" where
  "collect ord eq_field tbl =
     (let hits = filter (\<lambda>(i, d). eq_field d) tbl
      in case ord of Asc \<Rightarrow> hits | Desc \<Rightarrow> rev hits)"

subsection \<open>Queries\<close>

definition getConversations :: "doc_id option \<Rightarrow> world \<Rightarrow> exn + (doc_id \<times> conversation) list" where
  "getConversations auth w =
     (case auth of
        None \<Rightarrow> Inl (Error ''Not authenticated'')
      | Some uid \<Rightarrow> Inr (collect Desc (\<lambda>c. userId c = uid) (conversations w)))"

definition getMessages :: "doc_id option \<Rightarrow> doc_id \<Rightarrow> world \<Rightarrow> exn + (doc_id \<times> message) list" where
  "getMessages auth cid w =
     (case auth of
        None \<Rightarrow> Inl (Error ''Not authenticated'')
      | Some uid \<Rightarrow>
          (case db_get (conversations w) cid of
             None \<Rightarrow> Inl (Error ''Conversation not found'')
           | Some conv \<Rightarrow>
               if userId conv \<noteq> uid then Inl (Error ''Conversation not found'')
               else Inr (collect Asc (\<lambda>m. conversationId m = cid) (messages w))))"

definition getMessagesForAI :: "doc_id \<Rightarrow> world \<Rightarrow> (doc_id \<times> message) list" where
  "getMessagesForAI cid w = collect Asc (\<lambda>m. conversationId m = cid) (messages w)"

subsection \<open>Mutations\<close>

definition createConversation :: "doc_id option \<Rightarrow> string \<Rightarrow> int \<Rightarrow> world \<Rightarrow> (exn + doc_id) \<times> world" where
  "createConversation auth ttl now w =
     (case auth of
        None \<Rightarrow> (Inl (Error ''Not authenticated''), w)
      | Some uid \<Rightarrow>
          (let (i, tbl) = db_insert (conversations w)
                            \<lparr>userId = uid, title = ttl, lastMessageAt = now\<rparr>
           in (Inr i, w\<lparr>conversations := tbl\<rparr>)))"

definition sendMessage ::
  "doc_id option \<Rightarrow> doc_id \<Rightarrow> string \<Rightarrow> int \<Rightarrow> int \<Rightarrow> world \<Rightarrow> (exn + unit) \<times> world" where
  "sendMessage auth cid text now1 now2 w =
     (case auth of
        None \<Rightarrow> (Inl (Error ''Not authenticated''), w)
      | Some uid \<Rightarrow>
          (case db_get (conversations w) cid of
             None \<Rightarrow> (Inl (Error ''Conversation not found''), w)
           | Some conv \<Rightarrow>
               if userId conv \<noteq> uid then (Inl (Error ''Conversation not found''), w)
               else
                 (let w1 = w\<lparr>messages := snd (db_insert (messages w)
                              \<lparr>conversationId = cid, msg_userId = uid, content = text,
                               role = User, timestamp = now1\<rparr>)\<rparr>;
                      w2 = w1\<lparr>conversations :=
                              db_patch (conversations w1) cid (\<lambda>c. c\<lparr>lastMessageAt := now2\<rparr>)\<rparr>;
                      w3 = w2\<lparr>scheduled :=
                              scheduled w2 @ [RunAfter 0 Chat_generateAIResponse cid]\<rparr>
                  in (Inr (), w3))))"

definition saveAIMessage :: "doc_id \<Rightarrow> string \<Rightarrow> int \<Rightarrow> int \<Rightarrow> world \<Rightarrow> (exn + unit) \<times> world" where
  "saveAIMessage cid text now1 now2 w =
     (case db_get (conversations w) cid of
        None \<Rightarrow> (Inl (Error ''Conversation not found''), w)
      | Some conv \<Rightarrow>
          (let w1 = w\<lparr>messages := snd (db_insert (messages w)
                       \<lparr>conversationId = cid, msg_userId = userId conv, content = text,
                        role = Assistant, timestamp = now1\<rparr>)\<rparr>;
               w2 = w1\<lparr>conversations :=
                       db_patch (conversations w1) cid (\<lambda>c. c\<lparr>lastMessageAt := now2\<rparr>)\<rparr>
           in (Inr (), w2)))"

subsection \<open>The Generate action\<close>

definition system_prompt :: string where
  "system_prompt =
     ''You are Study Buddy, an expert AI tutor specifically designed to help Bachelor of Arts (B.A.) students excel in their academic journey. You have extensive knowledge in:\<newline>'' @
     ''\<newline>'' @
     ''**Core B.A. Subjects:**\<newline>'' @
     ''- Literature (English, Comparative, World Literature)\<newline>'' @
     ''- History (World, American, European, Ancient)\<newline>'' @
     ''- Philosophy (Ethics, Logic, Political Philosophy)\<newline>'' @
     ''- Psychology (Cognitive, Social, Developmental)\<newline>'' @
     ''- Sociology (Social Theory, Research Methods)\<newline>'' @
     ''- Political Science (Government, International Relations)\<newline>'' @
     ''- Anthropology (Cultural, Social)\<newline>'' @
     ''- Art History and Fine Arts\<newline>'' @
     ''- Languages and Linguistics\<newline>'' @
     ''- Religious Studies\<newline>'' @
     ''- Communication Studies\<newline>'' @
     ''\<newline>'' @
     ''**Your Expertise Includes:**\<newline>'' @
     ''- Essay writing and structure (thesis development, argumentation, citations)\<newline>'' @
     ''- Research methodologies and source evaluation\<newline>'' @
     ''- Critical thinking and analysis techniques\<newline>'' @
     ''- Study strategies and time management\<newline>'' @
     ''- Exam preparation and test-taking strategies\<newline>'' @
     ''- Academic writing styles (MLA, APA, Chicago)\<newline>'' @
     ''- Discussion facilitation and debate preparation\<newline>'' @
     ''\<newline>'' @
     ''**Your Teaching Style:**\<newline>'' @
     ''- Break complex concepts into digestible parts\<newline>'' @
     ''- Use examples and analogies relevant to undergraduate experience\<newline>'' @
     ''- Provide step-by-step guidance\<newline>'' @
     ''- Encourage critical thinking with thought-provoking questions\<newline>'' @
     ''- Offer multiple perspectives on topics\<newline>'' @
     ''- Be supportive and motivating\<newline>'' @
     ''- Adapt explanations to different learning styles\<newline>'' @
     ''\<newline>'' @
     ''**Response Guidelines:**\<newline>'' @
     ''- Keep responses comprehensive but accessible\<newline>'' @
     ''- Use bullet points and clear structure when helpful\<newline>'' @
     ''- Provide specific examples and case studies\<newline>'' @
     ''- Suggest additional resources when appropriate\<newline>'' @
     ''- Ask follow-up questions to deepen understanding\<newline>'' @
     ''- Maintain an encouraging, professional tone\<newline>'' @
     ''\<newline>'' @
     ''Always tailor your responses to undergraduate-level understanding while challenging students to think critically.''"

text \<open>\<open>String.prototype.includes\<close>: the search string occurs as a contiguous part.\<close>

definition string_includes :: "string \<Rightarrow> string \<Rightarrow> bool" where
  "string_includes s searchString = sublist searchString s"

definition errorMessage :: "exn \<Rightarrow> string" where
  "errorMessage error =
     ''I apologize, but I'm experiencing technical difficulties right now. '' @
     (case error of
        Error msg \<Rightarrow>
          if string_includes msg ''rate limit''
          then ''I'm currently handling many requests. Please try again in a moment.''
          else if string_includes msg ''network''
          then ''There seems to be a connection issue. Please check your internet and try again.''
          else ''Please try rephrasing your question or try again in a few moments.''
      | Other \<Rightarrow>
          ''Please try again in a moment, and I'll do my best to help you with your studies.'')"

definition openaiMessages :: "(doc_id \<times> message) list \<Rightarrow> message_param list" where
  "openaiMessages msgs =
     \<lparr>param_role = System, param_content = system_prompt\<rparr> #
     map (\<lambda>(i, msg). \<lparr>param_role = role msg, param_content = content msg\<rparr>) msgs"

text \<open>The argument of \<open>openai.chat.completions.create\<close>.\<close>

definition create_params :: "message_param list \<Rightarrow> completion_request" where
  "create_params msgs =
     \<lparr>model = ''gpt-4.1-nano'', request_messages = msgs, max_tokens = 1500,
      temperature = 7 / 10, presence_penalty = 1 / 10, frequency_penalty = 1 / 10\<rparr>"

text \<open>
  \<open>response.choices[0]?.message?.content\<close>: nothing when there is no first choice, no
  message in it or no content in that. The test \<open>!aiResponse\<close> of the action holds for
  nothing and for the empty string.
\<close>

definition first_choice_content :: "chat_completion \<Rightarrow> string option" where
  "first_choice_content response =
     (case choices response of
        [] \<Rightarrow> None
      | c # _ \<Rightarrow> (case choice_message c of None \<Rightarrow> None | Some m \<Rightarrow> message_content m))"

text \<open>
  The action: \<open>attempt\<close> is the \<open>try\<close> block, which ends at its first throw, be it the
  provider's, the one for a missing text or the one of \<open>saveAIMessage\<close>; the last
  \<open>case\<close> is the \<open>catch\<close> block, whose own \<open>saveAIMessage\<close> is not guarded.
\<close>

definition generateAIResponse ::
  "provider \<Rightarrow> doc_id \<Rightarrow> int \<Rightarrow> int \<Rightarrow> world \<Rightarrow> (exn + unit) \<times> world" where
  "generateAIResponse openai cid now1 now2 w =
     (let msgs = getMessagesForAI cid w;
          request = create_params (openaiMessages msgs);
          w1 = w\<lparr>completions := completions w @ [request]\<rparr>;
          attempt =
            (case openai request of
               Rejects e \<Rightarrow> (Inl e, w1)
             | Resolves response \<Rightarrow>
                 (case first_choice_content response of
                    None \<Rightarrow> (Inl (Error ''No response from AI''), w1)
                  | Some aiResponse \<Rightarrow>
                      if aiResponse = [] then (Inl (Error ''No response from AI''), w1)
                      else saveAIMessage cid aiResponse now1 now2 w1))
      in case attempt of
           (Inr u, w2) \<Rightarrow> (Inr u, w2)
         | (Inl error, w2) \<Rightarrow> saveAIMessage cid (errorMessage error) now1 now2 w2)"

subsection \<open>Static content providers\<close>

record study_tip =
  tip_title :: string
  tip_description :: string
  tip_category :: string

definition generalTips :: "study_tip list" where
  "generalTips =
     [\<lparr>tip_title = ''Active Reading Strategy'',
       tip_description = ''Use the SQ3R method: Survey, Question, Read, Recite, Review'',
       tip_category = ''Reading''\<rparr>,
      \<lparr>tip_title = ''Essay Structure'',
       tip_description = ''Follow the classic 5-paragraph structure: Introduction, 3 body paragraphs, conclusion'',
       tip_category = ''Writing''\<rparr>,
      \<lparr>tip_title = ''Time Management'',
       tip_description = ''Use the Pomodoro Technique: 25 minutes focused work, 5-minute break'',
       tip_category = ''Study Skills''\<rparr>,
      \<lparr>tip_title = ''Critical Thinking'',
       tip_description = ''Always ask: What? So what? Now what? to analyze any topic deeply'',
       tip_category = ''Analysis''\<rparr>]"

definition getStudyTips :: "doc_id option \<Rightarrow> string option \<Rightarrow> exn + study_tip list" where
  "getStudyTips auth subject =
     (case auth of None \<Rightarrow> Inl (Error ''Not authenticated'') | Some uid \<Rightarrow> Inr generalTips)"

record resource_group =
  group_title :: string
  resources :: "string list"

definition getAcademicResources :: "doc_id option \<Rightarrow> exn + resource_group list" where
  "getAcademicResources auth =
     (case auth of
        None \<Rightarrow> Inl (Error ''Not authenticated'')
      | Some uid \<Rightarrow>
          Inr [\<lparr>group_title = ''Citation Guides'',
                resources = [''MLA Style Guide - For literature and humanities'',
                             ''APA Style Guide - For psychology and social sciences'',
                             ''Chicago Manual of Style - For history and fine arts'']\<rparr>,
               \<lparr>group_title = ''Research Databases'',
                resources = [''JSTOR - Academic articles and books'',
                             ''Project MUSE - Humanities and social sciences'',
                             ''Google Scholar - Free academic search engine'']\<rparr>,
               \<lparr>group_title = ''Writing Centers'',
                resources = [''Purdue OWL - Comprehensive writing resources'',
                             ''University Writing Centers - Local tutoring support'',
                             ''Grammarly - Grammar and style checking'']\<rparr>])"

subsection \<open>The defined operations as one step function\<close>

text \<open>
  Every exported function of the backend, with the arguments it is called with. A query
  reads the store through a read-only handle, so its step leaves the world as it is.
\<close>

datatype operation =
    GetConversations "doc_id option"
  | GetMessages "doc_id option" doc_id
  | GetMessagesForAI doc_id
  | CreateConversation "doc_id option" string int
  | SendMessage "doc_id option" doc_id string int int
  | GenerateAIResponse provider doc_id int int
  | SaveAIMessage doc_id string int int
  | GetStudyTips "doc_id option" "string option"
  | GetAcademicResources "doc_id option"

fun exec :: "operation \<Rightarrow> world \<Rightarrow> world" where
  "exec (CreateConversation auth ttl now) w = snd (createConversation auth ttl now w)"
| "exec (SendMessage auth cid text now1 now2) w = snd (sendMessage auth cid text now1 now2 w)"
| "exec (GenerateAIResponse openai cid now1 now2) w = snd (generateAIResponse openai cid now1 now2 w)"
| "exec (SaveAIMessage cid text now1 now2) w = snd (saveAIMessage cid text now1 now2 w)"
| "exec (GetConversations auth) w = w"
| "exec (GetMessages auth cid) w = w"
| "exec (GetMessagesForAI cid) w = w"
| "exec (GetStudyTips auth subject) w = w"
| "exec (GetAcademicResources auth) w = w"

fun run :: "operation list \<Rightarrow> world \<Rightarrow> world" where
  "run [] w = w"
| "run (op # ops) w = run ops (exec op w)"

subsection \<open>Store invariants\<close>

text \<open>
  The parent of a message exists and has the message's owner; the role of a stored
  message is one the schema admits.
\<close>

definition message_ok :: "world \<Rightarrow> message \<Rightarrow> bool" where
  "message_ok w m =
     (case db_get (conversations w) (conversationId m) of
        None \<Rightarrow> False
      | Some conv \<Rightarrow> userId conv = msg_userId m)"

definition messages_ok :: "world \<Rightarrow> bool" where
  "messages_ok w = list_all (\<lambda>(i, m). message_ok w m \<and> stored_role (role m)) (messages w)"

text \<open>What no operation may change of a conversation: its identifier, owner and title.\<close>

definition identity_of :: "doc_id \<times> conversation \<Rightarrow> doc_id \<times> doc_id \<times> string" where
  "identity_of = (\<lambda>(i, c). (i, userId c, title c))"

subsection \<open>Derived notions used by the statements\<close>

text \<open>Ownership as the handlers test it: the conversation is found and its owner is the caller.\<close>

definition owns :: "world \<Rightarrow> doc_id \<Rightarrow> doc_id \<Rightarrow> bool" where
  "owns w u cid = (case db_get (conversations w) cid of None \<Rightarrow> False | Some conv \<Rightarrow> userId conv = u)"

text \<open>
  The order the specification words as "newest-last-activity first": descending in
  \<open>lastMessageAt\<close>.
\<close>

definition newest_activity_first :: "(doc_id \<times> conversation) list \<Rightarrow> bool" where
  "newest_activity_first cs = sorted_wrt (\<lambda>a b. lastMessageAt (snd a) \<ge> lastMessageAt (snd b)) cs"

text \<open>
  The text the Generate action persists, as a function of what the provider call gave:
  the first choice's content when there is one and it is not empty, the apology for the
  error raised otherwise.
\<close>

definition reply_text :: "provider_outcome \<Rightarrow> string" where
  "reply_text out =
     (case out of
        Rejects e \<Rightarrow> errorMessage e
      | Resolves response \<Rightarrow>
          (case first_choice_content response of
             None \<Rightarrow> errorMessage (Error ''No response from AI'')
           | Some aiResponse \<Rightarrow>
               if aiResponse = [] then errorMessage (Error ''No response from AI'')
               else aiResponse))"


text \<open>
  A small history: user 7 creates "Essay Help" and then "History", and sends "hello" in
  the first.
\<close>

definition scenario :: world where
  "scenario =
     snd (sendMessage (Some 7) 1 ''hello'' 300 300
       (snd (createConversation (Some 7) ''History'' 200
         (snd (createConversation (Some 7) ''Essay Help'' 100 empty_world)))))"

text \<open>
  The clock readings an operation takes, in the order it takes them, and a world no stamp
  of which is later than a given time, with its messages stored in the order of their
  timestamps.
\<close>

fun readings :: "operation \<Rightarrow> int list" where
  "readings (CreateConversation auth ttl now) = [now]"
| "readings (SendMessage auth cid text now1 now2) = [now1, now2]"
| "readings (GenerateAIResponse openai cid now1 now2) = [now1, now2]"
| "readings (SaveAIMessage cid text now1 now2) = [now1, now2]"
| "readings (GetConversations auth) = []"
| "readings (GetMessages auth cid) = []"
| "readings (GetMessagesForAI cid) = []"
| "readings (GetStudyTips auth subject) = []"
| "readings (GetAcademicResources auth) = []"

definition well_timed :: "world \<Rightarrow> int \<Rightarrow> bool" where
  "well_timed w t =
     (sorted (map (\<lambda>(i, m). timestamp m) (messages w))
      \<and> list_all (\<lambda>(i, m). timestamp m \<le> t) (messages w)
      \<and> list_all (\<lambda>(i, c). lastMessageAt c \<le> t) (conversations w))"

section \<open>Properties\<close>

subsection \<open>The store operations\<close>

lemma db_get_patch:
  "db_get (db_patch tbl i f) j = (if j = i then map_option f (db_get tbl j) else db_get tbl j)"
  by (induction tbl) (auto simp: db_get_def db_patch_def)

lemma map_fst_db_patch: "map fst (db_patch tbl i f) = map fst tbl"
  by (induction tbl) (auto simp: db_patch_def)

lemma fold_max_ge: "(m::nat) \<le> fold max xs m"
  by (induction xs arbitrary: m) (auto intro: order_trans [OF max.cobounded2])

lemma fold_max_mem: "x \<in> set xs \<Longrightarrow> (x::nat) \<le> fold max xs m"
proof (induction xs arbitrary: m)
  case Nil
  then show ?case by simp
next
  case (Cons y ys)
  show ?case
  proof (cases "x = y")
    case True
    have "x \<le> max y m" using True by simp
    also have "\<dots> \<le> fold max ys (max y m)" by (rule fold_max_ge)
    finally show ?thesis by simp
  next
    case False
    with Cons show ?thesis by simp
  qed
qed

lemma new_id_fresh: "new_id tbl \<notin> fst ` set tbl"
proof
  assume "new_id tbl \<in> fst ` set tbl"
  then have "new_id tbl \<in> set (map fst tbl)" by simp
  then have "new_id tbl \<le> fold max (map fst tbl) 0" by (rule fold_max_mem)
  then show False by (simp add: new_id_def)
qed

lemma db_get_insert_old:
  "db_get tbl j = Some d \<Longrightarrow> db_get (snd (db_insert tbl d')) j = Some d"
  by (simp add: db_get_def db_insert_def Let_def)

lemma sorted_map_filter: "sorted (map f xs) \<Longrightarrow> sorted (map f (filter P xs))"
  by (induction xs) auto

subsection \<open>The history evaluated\<close>

lemma scenario_eq:
  "scenario =
     \<lparr>conversations =
        [(1, \<lparr>userId = 7, title = ''Essay Help'', lastMessageAt = 300\<rparr>),
         (2, \<lparr>userId = 7, title = ''History'', lastMessageAt = 200\<rparr>)],
      messages =
        [(1, \<lparr>conversationId = 1, msg_userId = 7, content = ''hello'', role = User,
               timestamp = 300\<rparr>)],
      scheduled = [RunAfter 0 Chat_generateAIResponse 1], completions = []\<rparr>"
  by (simp add: scenario_def sendMessage_def createConversation_def empty_world_def
      db_insert_def db_get_def db_patch_def new_id_def Let_def)

subsection \<open>The Generate action in two cases\<close>

lemma saveAIMessage_missing:
  "db_get (conversations w) cid = None \<Longrightarrow>
   saveAIMessage cid text now1 now2 w = (Inl NotFound, w)"
  by (simp add: saveAIMessage_def)

lemma saveAIMessage_found:
  "db_get (conversations w) cid = Some conv \<Longrightarrow>
   saveAIMessage cid text now1 now2 w =
     (Inr (),
      w\<lparr>messages := messages w @
           [(new_id (messages w),
             \<lparr>conversationId = cid, msg_userId = userId conv, content = text,
              role = Assistant, timestamp = now1\<rparr>)],
        conversations := db_patch (conversations w) cid (\<lambda>c. c\<lparr>lastMessageAt := now2\<rparr>)\<rparr>)"
  by (simp add: saveAIMessage_def db_insert_def Let_def)

lemma generateAIResponse_missing:
  assumes "db_get (conversations w) cid = None"
  shows "generateAIResponse openai cid now1 now2 w =
    (Inl NotFound,
     w\<lparr>completions := completions w @ [create_params (openaiMessages (getMessagesForAI cid w))]\<rparr>)"
  using assms
  by (simp add: generateAIResponse_def Let_def saveAIMessage_missing
      split: provider_outcome.splits option.splits)

lemma generateAIResponse_found:
  assumes "db_get (conversations w) cid = Some conv"
  shows "generateAIResponse openai cid now1 now2 w =
    saveAIMessage cid
      (reply_text (openai (create_params (openaiMessages (getMessagesForAI cid w))))) now1 now2
      (w\<lparr>completions := completions w @ [create_params (openaiMessages (getMessagesForAI cid w))]\<rparr>)"
  using assms
  by (simp add: generateAIResponse_def Let_def saveAIMessage_found reply_text_def
      split: provider_outcome.splits option.splits)

lemma errorMessage_nonempty: "errorMessage e \<noteq> []"
  by (simp add: errorMessage_def)

lemma reply_text_nonempty: "reply_text out \<noteq> []"
  by (simp add: reply_text_def errorMessage_nonempty split: provider_outcome.splits option.splits)

subsection \<open>Listing conversations\<close>

text \<open>
  C1 (as stated, refuted). After the history above the owner's listing is "History",
  then "Essay Help": the conversation with the later \<open>lastMessageAt\<close> comes last, so the
  listing is not in descending order of \<open>lastMessageAt\<close>.
\<close>

theorem getConversations_not_by_last_activity:
  "getConversations (Some 7) scenario =
     Inr [(2, \<lparr>userId = 7, title = ''History'', lastMessageAt = 200\<rparr>),
          (1, \<lparr>userId = 7, title = ''Essay Help'', lastMessageAt = 300\<rparr>)]
   \<and> \<not> newest_activity_first
         [(2, \<lparr>userId = 7, title = ''History'', lastMessageAt = 200\<rparr>),
          (1, \<lparr>userId = 7, title = ''Essay Help'', lastMessageAt = 300\<rparr>)]"
  by (simp add: getConversations_def collect_def scenario_eq newest_activity_first_def)

text \<open>
  C1 (amended). For an authenticated user the listing is exactly the conversations whose
  owner is that user, no other, each once, in reverse order of creation: the most recently
  created first, whatever their \<open>lastMessageAt\<close>.
\<close>

theorem getConversations_newest_created_first:
  "getConversations (Some u) w = Inr (rev (filter (\<lambda>(i, c). userId c = u) (conversations w)))
   \<and> set (rev (filter (\<lambda>(i, c). userId c = u) (conversations w))) =
       {(i, c). (i, c) \<in> set (conversations w) \<and> userId c = u}"
  by (auto simp add: getConversations_def collect_def)

subsection \<open>Listing messages\<close>

text \<open>
  C6. \<open>getMessages\<close> fails with \<open>Unauthenticated\<close> when no user is resolved; for a user it
  fails with \<open>NotFound\<close> when the conversation is missing or owned by someone else, and
  otherwise returns the messages of the conversation in creation order, which is also
  ascending in \<open>timestamp\<close> whenever the table is.
\<close>

theorem getMessages_spec:
  "getMessages None cid w = Inl Unauthenticated
   \<and> (\<not> owns w u cid \<longrightarrow> getMessages (Some u) cid w = Inl NotFound)
   \<and> (owns w u cid \<longrightarrow>
        getMessages (Some u) cid w = Inr (filter (\<lambda>(i, m). conversationId m = cid) (messages w)))
   \<and> (sorted (map (\<lambda>(i, m). timestamp m) (messages w)) \<longrightarrow>
        sorted (map (\<lambda>(i, m). timestamp m) (filter (\<lambda>(i, m). conversationId m = cid) (messages w))))"
  by (simp add: getMessages_def owns_def collect_def sorted_map_filter split: option.splits)

theorem getMessages_spec_witness:
  "owns scenario 7 1 \<and> \<not> owns scenario 8 1 \<and> \<not> owns scenario 7 5
   \<and> sorted (map (\<lambda>(i, m). timestamp m) (messages scenario))
   \<and> getMessages (Some 7) 1 scenario =
       Inr [(1, \<lparr>conversationId = 1, msg_userId = 7, content = ''hello'', role = User, timestamp = 300\<rparr>)]
   \<and> getMessages (Some 8) 1 scenario = Inl NotFound
   \<and> getMessages (Some 7) 5 scenario = Inl NotFound"
proof -
  have a: "owns scenario 7 1" and b: "\<not> owns scenario 8 1" and c: "\<not> owns scenario 7 5"
    by (simp_all add: owns_def scenario_eq db_get_def)
  have s: "sorted (map (\<lambda>(i, m). timestamp m) (messages scenario))"
    by (simp add: scenario_eq)
  have m: "filter (\<lambda>(i, m). conversationId m = 1) (messages scenario) =
      [(1, \<lparr>conversationId = 1, msg_userId = 7, content = ''hello'', role = User, timestamp = 300\<rparr>)]"
    by (simp add: scenario_eq)
  show ?thesis
    using a b c s m getMessages_spec [of 1 scenario 7] getMessages_spec [of 1 scenario 8]
      getMessages_spec [of 5 scenario 7]
    by simp
qed

text \<open>
  C10. For the owner of a conversation, the user-facing listing returns the very list the
  internal listing returns; the internal one has no failure case at all.
\<close>

theorem getMessagesForAI_same_listing:
  assumes "db_get (conversations w) cid = Some conv" and "userId conv = u"
  shows "getMessages (Some u) cid w = Inr (getMessagesForAI cid w)"
  using assms by (simp add: getMessages_def getMessagesForAI_def)

theorem getMessagesForAI_same_listing_witness:
  "db_get (conversations scenario) 1 = Some \<lparr>userId = 7, title = ''Essay Help'', lastMessageAt = 300\<rparr>
   \<and> getMessages (Some 7) 1 scenario = Inr (getMessagesForAI 1 scenario)
   \<and> getMessagesForAI 1 scenario =
       [(1, \<lparr>conversationId = 1, msg_userId = 7, content = ''hello'', role = User, timestamp = 300\<rparr>)]"
proof -
  have h: "db_get (conversations scenario) 1 =
      Some \<lparr>userId = 7, title = ''Essay Help'', lastMessageAt = 300\<rparr>"
    by (simp add: scenario_eq db_get_def)
  have "getMessages (Some 7) 1 scenario = Inr (getMessagesForAI 1 scenario)"
    by (rule getMessagesForAI_same_listing [OF h]) simp
  moreover have "getMessagesForAI 1 scenario =
       [(1, \<lparr>conversationId = 1, msg_userId = 7, content = ''hello'', role = User, timestamp = 300\<rparr>)]"
    by (simp add: scenario_eq getMessagesForAI_def collect_def)
  ultimately show ?thesis using h by simp
qed

subsection \<open>Unauthenticated callers\<close>

text \<open>
  C7. With no user resolved, each of the six public functions fails with
  \<open>Unauthenticated\<close>; the two mutations return the world they were given, with nothing
  inserted, patched or scheduled. The four queries have no world to return.
\<close>

theorem unauthenticated_calls_fail_without_writes:
  "getConversations None w = Inl Unauthenticated
   \<and> getMessages None cid w = Inl Unauthenticated
   \<and> createConversation None ttl now w = (Inl Unauthenticated, w)
   \<and> sendMessage None cid text now1 now2 w = (Inl Unauthenticated, w)
   \<and> getStudyTips None subject = Inl Unauthenticated
   \<and> getAcademicResources None = Inl Unauthenticated"
  by (simp add: getConversations_def getMessages_def createConversation_def sendMessage_def
      getStudyTips_def getAcademicResources_def)

subsection \<open>The Generate action\<close>

lemma scenario_conv1:
  "db_get (conversations scenario) 1 =
     Some \<lparr>userId = 7, title = ''Essay Help'', lastMessageAt = 300\<rparr>"
  by (simp add: scenario_eq db_get_def)

text \<open>
  C2. For a conversation of the store and any behaviour of the provider (a completion
  with text, a completion with no usable text, a thrown \<open>Error\<close>, anything else thrown), the
  action returns normally and leaves the messages of the store extended by exactly one
  message: of that conversation, of its owner, with role \<open>Assistant\<close> and a non-empty
  content.
\<close>

theorem generateAIResponse_one_assistant_message:
  assumes "db_get (conversations w) cid = Some conv"
  shows "\<exists>text. text \<noteq> []
     \<and> fst (generateAIResponse openai cid now1 now2 w) = Inr ()
     \<and> messages (snd (generateAIResponse openai cid now1 now2 w)) =
         messages w @
           [(new_id (messages w),
             \<lparr>conversationId = cid, msg_userId = userId conv, content = text,
              role = Assistant, timestamp = now1\<rparr>)]"
proof -
  let ?req = "create_params (openaiMessages (getMessagesForAI cid w))"
  let ?w1 = "w\<lparr>completions := completions w @ [?req]\<rparr>"
  have found: "db_get (conversations ?w1) cid = Some conv"
    using assms by simp
  have "generateAIResponse openai cid now1 now2 w =
      saveAIMessage cid (reply_text (openai ?req)) now1 now2 ?w1"
    by (rule generateAIResponse_found [OF assms])
  then have "fst (generateAIResponse openai cid now1 now2 w) = Inr ()
     \<and> messages (snd (generateAIResponse openai cid now1 now2 w)) =
         messages w @
           [(new_id (messages w),
             \<lparr>conversationId = cid, msg_userId = userId conv,
              content = reply_text (openai ?req), role = Assistant, timestamp = now1\<rparr>)]"
    by (simp add: saveAIMessage_found [OF found])
  with reply_text_nonempty [of "openai ?req"] show ?thesis by blast
qed

theorem generateAIResponse_one_assistant_message_witness:
  "db_get (conversations scenario) 1 =
     Some \<lparr>userId = 7, title = ''Essay Help'', lastMessageAt = 300\<rparr>
   \<and> (\<exists>text. text \<noteq> []
     \<and> fst (generateAIResponse (\<lambda>r. Rejects Other) 1 400 401 scenario) = Inr ()
     \<and> messages (snd (generateAIResponse (\<lambda>r. Rejects Other) 1 400 401 scenario)) =
         [(1, \<lparr>conversationId = 1, msg_userId = 7, content = ''hello'', role = User,
               timestamp = 300\<rparr>),
          (2, \<lparr>conversationId = 1, msg_userId = 7, content = text, role = Assistant,
               timestamp = 400\<rparr>)])"
proof -
  have n: "new_id (messages scenario) = 2"
    by (simp add: scenario_eq new_id_def)
  have m: "messages scenario =
      [(1, \<lparr>conversationId = 1, msg_userId = 7, content = ''hello'', role = User,
               timestamp = 300\<rparr>)]"
    by (simp add: scenario_eq)
  show ?thesis
    using generateAIResponse_one_assistant_message
      [OF scenario_conv1, of "\<lambda>r. Rejects Other" 400 401, unfolded n] scenario_conv1
    by (simp add: m)
qed




subsection \<open>Sending a message\<close>

lemma sendMessage_found:
  "db_get (conversations w) cid = Some conv \<Longrightarrow> userId conv = u \<Longrightarrow>
   sendMessage (Some u) cid text now1 now2 w =
     (Inr (),
      w\<lparr>messages := messages w @
           [(new_id (messages w),
             \<lparr>conversationId = cid, msg_userId = u, content = text,
              role = User, timestamp = now1\<rparr>)],
        conversations := db_patch (conversations w) cid (\<lambda>c. c\<lparr>lastMessageAt := now2\<rparr>),
        scheduled := scheduled w @ [RunAfter 0 Chat_generateAIResponse cid]\<rparr>)"
  by (simp add: sendMessage_def db_insert_def Let_def)

lemma sendMessage_refused:
  "\<not> owns w u cid \<Longrightarrow> sendMessage (Some u) cid text now1 now2 w = (Inl NotFound, w)"
  by (auto simp add: sendMessage_def owns_def split: option.splits)

subsection \<open>The request sent to the provider\<close>

lemma saveAIMessage_completions:
  "completions (snd (saveAIMessage cid text now1 now2 w)) = completions w"
  by (simp add: saveAIMessage_def db_insert_def Let_def split: option.splits)

text \<open>
  C5. Whatever the store and the provider do, one run of the action sends exactly one
  request: the fixed system instruction first, then the conversation's messages in
  listing order, each with its own role and content, under the model identifier
  \<open>gpt-4.1-nano\<close> with \<open>max_tokens\<close> 1500, temperature 0.7 and both penalties 0.1. The
  run depends on the provider through its answer to that request only.
\<close>

theorem generateAIResponse_request:
  "completions (snd (generateAIResponse openai cid now1 now2 w)) =
     completions w @
       [\<lparr>model = ''gpt-4.1-nano'',
         request_messages =
           \<lparr>param_role = System, param_content = system_prompt\<rparr> #
           map (\<lambda>(i, m). \<lparr>param_role = role m, param_content = content m\<rparr>)
             (filter (\<lambda>(i, m). conversationId m = cid) (messages w)),
         max_tokens = 1500, temperature = 7 / 10,
         presence_penalty = 1 / 10, frequency_penalty = 1 / 10\<rparr>]
   \<and> (openai' (last (completions (snd (generateAIResponse openai cid now1 now2 w)))) =
        openai (last (completions (snd (generateAIResponse openai cid now1 now2 w)))) \<longrightarrow>
        generateAIResponse openai' cid now1 now2 w = generateAIResponse openai cid now1 now2 w)"
proof -
  let ?req = "create_params (openaiMessages (getMessagesForAI cid w))"
  have gen: "completions (snd (generateAIResponse p cid now1 now2 w)) = completions w @ [?req]" for p
  proof (cases "db_get (conversations w) cid")
    case None
    then show ?thesis by (simp add: generateAIResponse_missing)
  next
    case (Some conv)
    then show ?thesis by (simp add: generateAIResponse_found saveAIMessage_completions)
  qed
  have req: "?req = \<lparr>model = ''gpt-4.1-nano'',
         request_messages =
           \<lparr>param_role = System, param_content = system_prompt\<rparr> #
           map (\<lambda>(i, m). \<lparr>param_role = role m, param_content = content m\<rparr>)
             (filter (\<lambda>(i, m). conversationId m = cid) (messages w)),
         max_tokens = 1500, temperature = 7 / 10,
         presence_penalty = 1 / 10, frequency_penalty = 1 / 10\<rparr>"
    by (simp add: create_params_def openaiMessages_def getMessagesForAI_def collect_def)
  have same: "generateAIResponse openai' cid now1 now2 w = generateAIResponse openai cid now1 now2 w"
    if "openai' ?req = openai ?req"
  proof (cases "db_get (conversations w) cid")
    case None
    then show ?thesis by (simp add: generateAIResponse_missing)
  next
    case (Some conv)
    then show ?thesis using that by (simp add: generateAIResponse_found)
  qed
  show ?thesis
    using same by (simp add: gen req [symmetric])
qed

theorem generateAIResponse_request_witness:
  "request_messages (last (completions
      (snd (generateAIResponse (\<lambda>r. Rejects Other) 1 400 401 scenario)))) =
     [\<lparr>param_role = System, param_content = system_prompt\<rparr>,
      \<lparr>param_role = User, param_content = ''hello''\<rparr>]
   \<and> generateAIResponse
         (\<lambda>r. if model r = ''gpt-4.1-nano'' then Rejects Other else Resolves (ChatCompletion []))
         1 400 401 scenario =
       generateAIResponse (\<lambda>r. Rejects Other) 1 400 401 scenario"
proof -
  let ?p = "\<lambda>r. if model r = ''gpt-4.1-nano'' then Rejects Other else Resolves (ChatCompletion [])"
  have m: "filter (\<lambda>(i, m). conversationId m = 1) (messages scenario) =
      [(1, \<lparr>conversationId = 1, msg_userId = 7, content = ''hello'', role = User,
               timestamp = 300\<rparr>)]"
    by (simp add: scenario_eq)
  note t = generateAIResponse_request [of "\<lambda>r. Rejects Other" 1 400 401 scenario ?p, unfolded m]
  from t have l: "last (completions (snd (generateAIResponse (\<lambda>r. Rejects Other) 1 400 401 scenario))) =
      \<lparr>model = ''gpt-4.1-nano'',
         request_messages =
           [\<lparr>param_role = System, param_content = system_prompt\<rparr>,
            \<lparr>param_role = User, param_content = ''hello''\<rparr>],
         max_tokens = 1500, temperature = 7 / 10,
         presence_penalty = 1 / 10, frequency_penalty = 1 / 10\<rparr>"
    by simp
  show ?thesis
    using t unfolding l by simp
qed

subsection \<open>What every operation keeps\<close>

lemma identity_of_patch:
  "map identity_of (db_patch tbl cid (\<lambda>c. c\<lparr>lastMessageAt := t\<rparr>)) = map identity_of tbl"
  by (induction tbl) (auto simp: db_patch_def identity_of_def)

lemma conversations_createConversation:
  "\<exists>added. conversations (snd (createConversation auth ttl now w)) = conversations w @ added"
  by (simp add: createConversation_def db_insert_def Let_def split: option.splits)

lemma conversations_saveAIMessage:
  "map identity_of (conversations (snd (saveAIMessage cid text now1 now2 w))) =
   map identity_of (conversations w)"
  by (simp add: saveAIMessage_def db_insert_def Let_def identity_of_patch split: option.splits)

lemma conversations_sendMessage:
  "map identity_of (conversations (snd (sendMessage auth cid text now1 now2 w))) =
   map identity_of (conversations w)"
  by (simp add: sendMessage_def db_insert_def Let_def identity_of_patch split: option.splits)

lemma conversations_generateAIResponse:
  "map identity_of (conversations (snd (generateAIResponse openai cid now1 now2 w))) =
   map identity_of (conversations w)"
proof (cases "db_get (conversations w) cid")
  case None
  then show ?thesis by (simp add: generateAIResponse_missing)
next
  case (Some conv)
  then show ?thesis by (simp add: generateAIResponse_found conversations_saveAIMessage)
qed

lemma exec_keeps_identities:
  "prefix (map identity_of (conversations w)) (map identity_of (conversations (exec op w)))"
proof (cases op)
  case (CreateConversation auth ttl now)
  obtain added where
    "conversations (snd (createConversation auth ttl now w)) = conversations w @ added"
    using conversations_createConversation by blast
  with CreateConversation show ?thesis by simp
qed (simp_all add: conversations_sendMessage conversations_generateAIResponse
      conversations_saveAIMessage)

lemma run_keeps_identities:
  "prefix (map identity_of (conversations w)) (map identity_of (conversations (run ops w)))"
proof (induction ops arbitrary: w)
  case Nil
  show ?case by simp
next
  case (Cons op ops)
  have "prefix (map identity_of (conversations w)) (map identity_of (conversations (exec op w)))"
    by (rule exec_keeps_identities)
  also have "prefix \<dots> (map identity_of (conversations (run ops (exec op w))))"
    by (rule Cons.IH)
  finally show ?case by simp
qed

lemma message_ok_cong:
  "conversations w' = conversations w \<Longrightarrow> message_ok w' m = message_ok w m"
  by (simp add: message_ok_def)

lemma message_ok_patch:
  "message_ok w m \<Longrightarrow>
   conversations w' = db_patch (conversations w) cid (\<lambda>c. c\<lparr>lastMessageAt := t\<rparr>) \<Longrightarrow>
   message_ok w' m"
  by (auto simp: message_ok_def db_get_patch split: option.splits)

lemma message_ok_append:
  "message_ok w m \<Longrightarrow> conversations w' = conversations w @ added \<Longrightarrow> message_ok w' m"
  by (auto simp: message_ok_def db_get_def split: option.splits)

lemma messages_ok_createConversation:
  assumes "messages_ok w"
  shows "messages_ok (snd (createConversation auth ttl now w))"
proof -
  obtain added where c:
    "conversations (snd (createConversation auth ttl now w)) = conversations w @ added"
    using conversations_createConversation by blast
  have m: "messages (snd (createConversation auth ttl now w)) = messages w"
    by (simp add: createConversation_def db_insert_def Let_def split: option.splits)
  show ?thesis
    using assms message_ok_append [OF _ c]
    by (auto simp: messages_ok_def m list_all_iff)
qed

lemma messages_ok_write:
  assumes ok: "messages_ok w"
    and conv: "db_get (conversations w) cid = Some conv"
    and role: "stored_role r"
    and convs: "conversations w' = db_patch (conversations w) cid (\<lambda>c. c\<lparr>lastMessageAt := t\<rparr>)"
    and msgs: "messages w' = messages w @
        [(i, \<lparr>conversationId = cid, msg_userId = userId conv, content = text, role = r,
              timestamp = t'\<rparr>)]"
  shows "messages_ok w'"
proof -
  have old: "list_all (\<lambda>(i, m). message_ok w' m \<and> stored_role (role m)) (messages w)"
    using ok message_ok_patch [OF _ convs] by (auto simp: messages_ok_def list_all_iff)
  have new: "message_ok w'
      \<lparr>conversationId = cid, msg_userId = userId conv, content = text, role = r, timestamp = t'\<rparr>"
    by (simp add: message_ok_def convs db_get_patch conv)
  show ?thesis
    using old new role by (simp add: messages_ok_def msgs)
qed

lemma messages_ok_saveAIMessage:
  assumes "messages_ok w"
  shows "messages_ok (snd (saveAIMessage cid text now1 now2 w))"
proof (cases "db_get (conversations w) cid")
  case None
  with assms show ?thesis by (simp add: saveAIMessage_missing)
next
  case (Some conv)
  show ?thesis
    by (rule messages_ok_write [OF assms Some, where r = Assistant])
       (simp_all add: saveAIMessage_found [OF Some] stored_role_def)
qed

lemma messages_ok_sendMessage:
  assumes "messages_ok w"
  shows "messages_ok (snd (sendMessage auth cid text now1 now2 w))"
proof (cases auth)
  case None
  with assms show ?thesis by (simp add: sendMessage_def)
next
  case (Some u)
  show ?thesis
  proof (cases "owns w u cid")
    case False
    with assms Some show ?thesis by (simp add: sendMessage_refused)
  next
    case True
    then obtain conv where conv: "db_get (conversations w) cid = Some conv" "userId conv = u"
      by (auto simp: owns_def split: option.splits)
    show ?thesis
      unfolding Some
      by (rule messages_ok_write [OF assms conv(1), where r = User])
         (simp_all add: sendMessage_found [OF conv] stored_role_def conv(2))
  qed
qed

lemma messages_ok_generateAIResponse:
  assumes "messages_ok w"
  shows "messages_ok (snd (generateAIResponse openai cid now1 now2 w))"
proof -
  let ?w1 = "w\<lparr>completions := completions w @
      [create_params (openaiMessages (getMessagesForAI cid w))]\<rparr>"
  have ok1: "messages_ok ?w1"
    using assms by (simp add: messages_ok_def message_ok_def)
  show ?thesis
  proof (cases "db_get (conversations w) cid")
    case None
    with ok1 show ?thesis by (simp add: generateAIResponse_missing)
  next
    case (Some conv)
    then show ?thesis
      by (simp add: generateAIResponse_found messages_ok_saveAIMessage [OF ok1])
  qed
qed

lemma messages_saveAIMessage:
  "prefix (messages w) (messages (snd (saveAIMessage cid text now1 now2 w)))"
  by (simp add: saveAIMessage_def db_insert_def Let_def split: option.splits)

lemma messages_sendMessage:
  "prefix (messages w) (messages (snd (sendMessage auth cid text now1 now2 w)))"
  by (simp add: sendMessage_def db_insert_def Let_def split: option.splits)

lemma messages_createConversation:
  "messages (snd (createConversation auth ttl now w)) = messages w"
  by (simp add: createConversation_def db_insert_def Let_def split: option.splits)

lemma messages_generateAIResponse:
  "prefix (messages w) (messages (snd (generateAIResponse openai cid now1 now2 w)))"
proof (cases "db_get (conversations w) cid")
  case None
  then show ?thesis by (simp add: generateAIResponse_missing)
next
  case (Some conv)
  have "prefix (messages (w\<lparr>completions := completions w @
      [create_params (openaiMessages (getMessagesForAI cid w))]\<rparr>))
     (messages (snd (generateAIResponse openai cid now1 now2 w)))"
    unfolding generateAIResponse_found [OF Some] by (rule messages_saveAIMessage)
  then show ?thesis by simp
qed

lemma exec_messages:
  "prefix (messages w) (messages (exec op w))"
  by (cases op)
     (simp_all add: messages_saveAIMessage messages_sendMessage messages_createConversation
        messages_generateAIResponse)

lemma exec_messages_ok: "messages_ok w \<Longrightarrow> messages_ok (exec op w)"
  by (cases op)
     (simp_all add: messages_ok_saveAIMessage messages_ok_sendMessage
        messages_ok_createConversation messages_ok_generateAIResponse)

lemma run_messages: "prefix (messages w) (messages (run ops w))"
proof (induction ops arbitrary: w)
  case Nil
  show ?case by simp
next
  case (Cons op ops)
  have "prefix (messages w) (messages (exec op w))"
    by (rule exec_messages)
  also have "prefix \<dots> (messages (run ops (exec op w)))"
    by (rule Cons.IH)
  finally show ?case by simp
qed

lemma run_messages_ok: "messages_ok w \<Longrightarrow> messages_ok (run ops w)"
  by (induction ops arbitrary: w) (simp_all add: exec_messages_ok)

text \<open>
  C8. Along any sequence of the defined operations the messages table only grows at its
  end, so no stored message is edited or deleted; if every stored message has an existing
  parent conversation with the same owner and a role among \<open>User\<close> and \<open>Assistant\<close>,
  that is still so afterwards; and it is so in every world reached from the empty one.
  \<open>sendMessage\<close> and \<open>saveAIMessage\<close> are the runs of length one of the operations of
  that name.
\<close>

theorem messages_linked_and_append_only:
  "prefix (messages w) (messages (run ops w))
   \<and> (messages_ok w \<longrightarrow> messages_ok (run ops w))
   \<and> messages_ok (run ops empty_world)"
proof -
  have "messages_ok empty_world"
    by (simp add: messages_ok_def empty_world_def)
  then show ?thesis
    using run_messages [of w ops] run_messages_ok by blast
qed

theorem messages_linked_and_append_only_witness:
  "messages_ok scenario
   \<and> messages_ok (run [SendMessage (Some 7) 2 ''and then?'' 500 501,
                       GenerateAIResponse (\<lambda>r. Rejects Other) 2 600 601] scenario)
   \<and> prefix (messages scenario)
        (messages (run [SendMessage (Some 7) 2 ''and then?'' 500 501,
                        GenerateAIResponse (\<lambda>r. Rejects Other) 2 600 601] scenario))
   \<and> map (\<lambda>(i, m). (conversationId m, role m))
        (messages (run [SendMessage (Some 7) 2 ''and then?'' 500 501,
                        GenerateAIResponse (\<lambda>r. Rejects Other) 2 600 601] scenario)) =
       [(1, User), (2, User), (2, Assistant)]"
proof -
  let ?ops = "[SendMessage (Some 7) 2 ''and then?'' 500 501,
               GenerateAIResponse (\<lambda>r. Rejects Other) 2 600 601]"
  have ok: "messages_ok scenario"
    by (simp add: scenario_eq messages_ok_def message_ok_def db_get_def stored_role_def)
  have "map (\<lambda>(i, m). (conversationId m, role m)) (messages (run ?ops scenario)) =
       [(1, User), (2, User), (2, Assistant)]"
    by (simp add: scenario_eq sendMessage_def generateAIResponse_def saveAIMessage_def
        getMessagesForAI_def collect_def db_get_def db_insert_def db_patch_def new_id_def Let_def)
  then show ?thesis
    using ok messages_linked_and_append_only [of scenario ?ops] by simp
qed

text \<open>
  C9. Along any sequence of the defined operations every conversation stays in the table,
  at its place, with its identifier, owner and title; \<open>lastMessageAt\<close> is the only field
  left to change.
\<close>

theorem conversation_identity_frozen:
  "prefix (map identity_of (conversations w)) (map identity_of (conversations (run ops w)))"
  by (rule run_keeps_identities)

theorem conversation_identity_frozen_witness:
  "map identity_of (conversations scenario) = [(1, 7, ''Essay Help''), (2, 7, ''History'')]
   \<and> prefix [(1, 7, ''Essay Help''), (2, 7, ''History'')]
       (map identity_of (conversations
          (run [SendMessage (Some 7) 2 ''and then?'' 500 501,
                CreateConversation (Some 8) ''Logic'' 550,
                GenerateAIResponse (\<lambda>r. Rejects Other) 2 600 601] scenario)))"
proof -
  have i: "map identity_of (conversations scenario) = [(1, 7, ''Essay Help''), (2, 7, ''History'')]"
    by (simp add: scenario_eq identity_of_def)
  show ?thesis
    using conversation_identity_frozen [of scenario "[SendMessage (Some 7) 2 ''and then?'' 500 501,
                CreateConversation (Some 8) ''Logic'' 550,
                GenerateAIResponse (\<lambda>r. Rejects Other) 2 600 601]"]
    unfolding i by simp
qed

subsection \<open>Under a clock that does not run backwards\<close>

text \<open>
  A clock reading is not earlier than what the store already holds, and the messages are
  stored in the order of their timestamps, in every history whose clock readings never
  decrease, from the empty store on.
\<close>

lemma well_timed_later: "well_timed w t \<Longrightarrow> t \<le> t' \<Longrightarrow> well_timed w t'"
  by (fastforce simp: well_timed_def list_all_iff)

lemma well_timed_write:
  assumes wt: "well_timed w t" and le: "t \<le> now1" "now1 \<le> now2"
    and convs: "conversations w' = db_patch (conversations w) cid (\<lambda>c. c\<lparr>lastMessageAt := now2\<rparr>)"
    and msgs: "messages w' = messages w @
        [(i, \<lparr>conversationId = cid, msg_userId = u, content = text, role = r,
              timestamp = now1\<rparr>)]"
  shows "well_timed w' now2"
proof -
  have old: "\<forall>x \<in> set (messages w). (case x of (i, m) \<Rightarrow> timestamp m) \<le> t"
    using wt by (auto simp: well_timed_def list_all_iff)
  have "sorted (map (\<lambda>(i, m). timestamp m) (messages w'))"
    using wt old le by (fastforce simp: well_timed_def msgs sorted_append)
  moreover have "list_all (\<lambda>(i, m). timestamp m \<le> now2) (messages w')"
    using old le by (fastforce simp: msgs list_all_iff)
  moreover have "list_all (\<lambda>(i, c). lastMessageAt c \<le> now2) (conversations w')"
    using wt le by (fastforce simp: well_timed_def convs db_patch_def list_all_iff split: if_splits)
  ultimately show ?thesis by (simp add: well_timed_def)
qed

lemma well_timed_saveAIMessage:
  assumes "well_timed w t" "t \<le> now1" "now1 \<le> now2"
  shows "well_timed (snd (saveAIMessage cid text now1 now2 w)) now2"
proof (cases "db_get (conversations w) cid")
  case None
  with assms show ?thesis by (simp add: saveAIMessage_missing well_timed_later)
next
  case (Some conv)
  show ?thesis
    by (rule well_timed_write [OF assms]) (simp_all add: saveAIMessage_found [OF Some])
qed

lemma well_timed_sendMessage:
  assumes "well_timed w t" "t \<le> now1" "now1 \<le> now2"
  shows "well_timed (snd (sendMessage auth cid text now1 now2 w)) now2"
proof (cases auth)
  case None
  with assms show ?thesis by (simp add: sendMessage_def well_timed_later)
next
  case (Some u)
  show ?thesis
  proof (cases "owns w u cid")
    case False
    with assms Some show ?thesis by (simp add: sendMessage_refused well_timed_later)
  next
    case True
    then obtain conv where conv: "db_get (conversations w) cid = Some conv" "userId conv = u"
      by (auto simp: owns_def split: option.splits)
    show ?thesis
      unfolding Some
      by (rule well_timed_write [OF assms]) (simp_all add: sendMessage_found [OF conv])
  qed
qed

lemma well_timed_generateAIResponse:
  assumes "well_timed w t" "t \<le> now1" "now1 \<le> now2"
  shows "well_timed (snd (generateAIResponse openai cid now1 now2 w)) now2"
proof -
  let ?w1 = "w\<lparr>completions := completions w @
      [create_params (openaiMessages (getMessagesForAI cid w))]\<rparr>"
  have wt1: "well_timed ?w1 t"
    using assms(1) by (simp add: well_timed_def)
  show ?thesis
  proof (cases "db_get (conversations w) cid")
    case None
    with wt1 assms show ?thesis by (simp add: generateAIResponse_missing well_timed_later)
  next
    case (Some conv)
    then show ?thesis
      by (simp add: generateAIResponse_found well_timed_saveAIMessage [OF wt1 assms(2,3)])
  qed
qed

lemma well_timed_createConversation:
  assumes "well_timed w t" "t \<le> now"
  shows "well_timed (snd (createConversation auth ttl now w)) now"
  using assms
  by (fastforce simp: well_timed_def createConversation_def db_insert_def Let_def list_all_iff
      split: option.splits)

lemma exec_well_timed:
  assumes "well_timed w t" and "sorted (t # readings op)"
  shows "well_timed (exec op w) (last (t # readings op))"
  using assms
  by (cases op)
     (simp_all add: well_timed_sendMessage well_timed_saveAIMessage
        well_timed_generateAIResponse well_timed_createConversation)

lemma run_well_timed:
  "well_timed w t \<Longrightarrow> sorted (t # concat (map readings ops)) \<Longrightarrow>
   well_timed (run ops w) (last (t # concat (map readings ops)))"
proof (induction ops arbitrary: w t)
  case Nil
  then show ?case by simp
next
  case (Cons op ops)
  let ?t' = "last (t # readings op)"
  have s1: "sorted (t # readings op)"
    using Cons.prems(2) by (auto simp: sorted_append)
  have s2: "sorted (?t' # concat (map readings ops))"
    using Cons.prems(2) by (cases "readings op" rule: rev_cases) (auto simp: sorted_append)
  have "well_timed (run ops (exec op w)) (last (?t' # concat (map readings ops)))"
    by (rule Cons.IH [OF exec_well_timed [OF Cons.prems(1) s1] s2])
  moreover have "last (?t' # concat (map readings ops)) =
      last (t # concat (map readings (op # ops)))"
    by (cases "readings op" rule: rev_cases) (auto simp: last_append)
  ultimately show ?case by simp
qed

lemma well_timed_empty: "well_timed empty_world t"
  by (simp add: well_timed_def empty_world_def)

lemma well_timed_lastMessageAt:
  assumes "well_timed w t" and "db_get (conversations w) cid = Some conv"
  shows "lastMessageAt conv \<le> t"
proof -
  have "(cid, conv) \<in> set (conversations w)"
    using assms(2) by (simp add: db_get_def map_of_SomeD)
  with assms(1) show ?thesis
    by (auto simp: well_timed_def list_all_iff)
qed

lemma well_timed_history:
  "sorted (t # concat (map readings ops)) \<Longrightarrow>
   well_timed (run ops empty_world) (last (t # concat (map readings ops)))"
  by (rule run_well_timed [OF well_timed_empty])

subsection \<open>The effect of sending a message\<close>

lemma scenario_history:
  "scenario =
     run [CreateConversation (Some 7) ''Essay Help'' 100,
          CreateConversation (Some 7) ''History'' 200,
          SendMessage (Some 7) 1 ''hello'' 300 300] empty_world"
  by (simp add: scenario_def)

lemma scenario_well_timed: "well_timed scenario 300"
  using well_timed_history
    [of 100 "[CreateConversation (Some 7) ''Essay Help'' 100,
              CreateConversation (Some 7) ''History'' 200,
              SendMessage (Some 7) 1 ''hello'' 300 300]"]
  by (simp add: scenario_history)

text \<open>
  C3 (as stated, refuted). \<open>lastMessageAt\<close> is overwritten with the clock reading, with no
  maximum taken: sent with readings 50 and 40 in the history above, a message to the first
  conversation succeeds and lowers its \<open>lastMessageAt\<close> from 300 to 40.
\<close>

theorem sendMessage_lastMessageAt_can_decrease:
  "fst (sendMessage (Some 7) 1 ''earlier'' 50 40 scenario) = Inr ()
   \<and> map_option lastMessageAt (db_get (conversations scenario) 1) = Some 300
   \<and> map_option lastMessageAt
        (db_get (conversations (snd (sendMessage (Some 7) 1 ''earlier'' 50 40 scenario))) 1) =
       Some 40
   \<and> \<not> (300::int) \<le> 40"
  by (simp add: scenario_eq sendMessage_def db_get_def db_insert_def db_patch_def Let_def)

text \<open>
  C3 (amended). A successful \<open>sendMessage\<close> of user \<open>u\<close> means \<open>u\<close> owns the conversation, and
  then the new world differs from the old one in exactly this: one message is appended,
  under an identifier no message had, with role \<open>User\<close>, that content and the first clock
  reading; the conversations keep their identifiers and order, and only those with the
  given identifier change, only in \<open>lastMessageAt\<close>, which becomes the second clock
  reading; one job for the conversation is appended to the scheduler's queue; no request
  is sent to the provider. The new \<open>lastMessageAt\<close> is not below the prior value when no
  stamp of the store is later than the reading, which is so in every history whose clock
  readings never decrease.
\<close>

theorem sendMessage_effect:
  assumes "sendMessage (Some u) cid text now1 now2 w = (Inr (), w')"
  shows "\<exists>conv conv'. db_get (conversations w) cid = Some conv \<and> userId conv = u
     \<and> messages w' = messages w @
           [(new_id (messages w),
             \<lparr>conversationId = cid, msg_userId = u, content = text,
              role = User, timestamp = now1\<rparr>)]
     \<and> new_id (messages w) \<notin> fst ` set (messages w)
     \<and> conversations w' =
           map (\<lambda>(j, c). if j = cid then (j, c\<lparr>lastMessageAt := now2\<rparr>) else (j, c))
             (conversations w)
     \<and> db_get (conversations w') cid = Some conv'
     \<and> userId conv' = userId conv \<and> title conv' = title conv
     \<and> lastMessageAt conv' = now2
     \<and> (well_timed w t \<and> t \<le> now2 \<longrightarrow> lastMessageAt conv \<le> lastMessageAt conv')
     \<and> scheduled w' = scheduled w @ [RunAfter 0 Chat_generateAIResponse cid]
     \<and> completions w' = completions w"
proof (cases "owns w u cid")
  case False
  with assms show ?thesis by (simp add: sendMessage_refused)
next
  case True
  then obtain conv where conv: "db_get (conversations w) cid = Some conv" "userId conv = u"
    by (auto simp: owns_def split: option.splits)
  have w': "w' = w\<lparr>messages := messages w @
           [(new_id (messages w),
             \<lparr>conversationId = cid, msg_userId = u, content = text,
              role = User, timestamp = now1\<rparr>)],
        conversations := db_patch (conversations w) cid (\<lambda>c. c\<lparr>lastMessageAt := now2\<rparr>),
        scheduled := scheduled w @ [RunAfter 0 Chat_generateAIResponse cid]\<rparr>"
    using assms sendMessage_found [OF conv] by simp
  have after: "db_get (conversations w') cid = Some (conv\<lparr>lastMessageAt := now2\<rparr>)"
    by (simp add: w' db_get_patch conv)
  have table: "conversations w' =
           map (\<lambda>(j, c). if j = cid then (j, c\<lparr>lastMessageAt := now2\<rparr>) else (j, c))
             (conversations w)"
    by (simp add: w' db_patch_def)
  have clock: "lastMessageAt conv \<le> lastMessageAt (conv\<lparr>lastMessageAt := now2\<rparr>)"
    if "well_timed w t" and "t \<le> now2"
  proof -
    have "lastMessageAt conv \<le> t"
      by (rule well_timed_lastMessageAt [OF that(1) conv(1)])
    with that(2) show ?thesis by simp
  qed
  have rest: "messages w' = messages w @
           [(new_id (messages w),
             \<lparr>conversationId = cid, msg_userId = u, content = text,
              role = User, timestamp = now1\<rparr>)]
     \<and> scheduled w' = scheduled w @ [RunAfter 0 Chat_generateAIResponse cid]
     \<and> completions w' = completions w"
    by (simp add: w')
  show ?thesis
    using conv after table clock rest new_id_fresh [of "messages w"]
    by (intro exI [of _ conv] exI [of _ "conv\<lparr>lastMessageAt := now2\<rparr>"]) simp
qed

theorem sendMessage_effect_witness:
  "sendMessage (Some 7) 2 ''and then?'' 500 501 scenario =
     (Inr (),
      \<lparr>conversations =
        [(1, \<lparr>userId = 7, title = ''Essay Help'', lastMessageAt = 300\<rparr>),
         (2, \<lparr>userId = 7, title = ''History'', lastMessageAt = 501\<rparr>)],
      messages =
        [(1, \<lparr>conversationId = 1, msg_userId = 7, content = ''hello'', role = User,
               timestamp = 300\<rparr>),
         (2, \<lparr>conversationId = 2, msg_userId = 7, content = ''and then?'', role = User,
               timestamp = 500\<rparr>)],
      scheduled = [RunAfter 0 Chat_generateAIResponse 1, RunAfter 0 Chat_generateAIResponse 2],
      completions = []\<rparr>)
   \<and> well_timed scenario 300 \<and> (300::int) \<le> 501
   \<and> (\<exists>conv conv'. db_get (conversations scenario) 2 = Some conv
        \<and> db_get (conversations (snd (sendMessage (Some 7) 2 ''and then?'' 500 501 scenario))) 2 =
            Some conv'
        \<and> lastMessageAt conv \<le> lastMessageAt conv')"
proof -
  have run: "sendMessage (Some 7) 2 ''and then?'' 500 501 scenario =
     (Inr (),
      \<lparr>conversations =
        [(1, \<lparr>userId = 7, title = ''Essay Help'', lastMessageAt = 300\<rparr>),
         (2, \<lparr>userId = 7, title = ''History'', lastMessageAt = 501\<rparr>)],
      messages =
        [(1, \<lparr>conversationId = 1, msg_userId = 7, content = ''hello'', role = User,
               timestamp = 300\<rparr>),
         (2, \<lparr>conversationId = 2, msg_userId = 7, content = ''and then?'', role = User,
               timestamp = 500\<rparr>)],
      scheduled = [RunAfter 0 Chat_generateAIResponse 1, RunAfter 0 Chat_generateAIResponse 2],
      completions = []\<rparr>)"
    by (simp add: scenario_eq sendMessage_def db_get_def db_insert_def db_patch_def
        new_id_def Let_def)
  have le: "(300::int) \<le> 501" by simp
  from sendMessage_effect [OF run, of 300] scenario_well_timed le
  obtain conv conv' where
    "db_get (conversations scenario) 2 = Some conv"
    "db_get (conversations (snd (sendMessage (Some 7) 2 ''and then?'' 500 501 scenario))) 2 =
       Some conv'"
    "lastMessageAt conv \<le> lastMessageAt conv'"
    unfolding run snd_conv by blast
  then show ?thesis
    using run scenario_well_timed le by blast
qed

end
